theory Spec2Isabelle
  imports Main
begin

section \<open>Network device inventory tool (inventory_tool.py)\<close>

text \<open>
  The tool reads a CSV inventory with \<^verbatim>\<open>csv.DictReader\<close>, looks devices up by name and
  exports the list as JSON or YAML. The embedding follows the Python source function by
  function. Python strings are \<^typ>\<open>string\<close>; a dictionary is an association list in
  insertion order whose keys are pairwise different; an exception is a value of \<open>exc\<close>;
  every \<^verbatim>\<open>print\<close> call is one \<open>message\<close> appended to the output.
\<close>

subsection \<open>Exceptions and console output\<close>

text \<open>
  The handlers of the source tell \<^verbatim>\<open>FileNotFoundError\<close> from every other
  \<^verbatim>\<open>Exception\<close>; the \<^verbatim>\<open>list\<close> action can raise \<^verbatim>\<open>KeyError\<close>. Any other
  exception (a permission error, a decoding error, \<^verbatim>\<open>csv.Error\<close>, a full disk) is
  \<open>OtherException\<close> with its text.
\<close>

datatype exc = FileNotFoundError | KeyError string | OtherException string

subsection \<open>Dictionaries\<close>

text \<open>
  A row of \<^verbatim>\<open>csv.DictReader\<close> maps a field name to a string; a short row maps the
  missing fields to \<^verbatim>\<open>None\<close> (restval), and a long row stores the surplus values as a
  list under the key \<^verbatim>\<open>None\<close> (restkey). So a key is a \<^typ>\<open>string option\<close> and a
  value is one of three shapes.
\<close>

datatype val = Str string | NoneVal | Strs "string list"

type_synonym key = "string option"

type_synonym device = "(key \<times> val) list"

text \<open>\<^verbatim>\<open>d[k] = v\<close>: an existing key keeps its place, a new key goes last.\<close>

fun setitem :: "('k \<times> 'v) list \<Rightarrow> 'k \<Rightarrow> 'v \<Rightarrow> ('k \<times> 'v) list" where
  "setitem [] k v = [(k, v)]"
| "setitem ((k', v') # d) k v =
     (if k' = k then (k', v) # d else (k', v') # setitem d k v)"

text \<open>\<^verbatim>\<open>dict(pairs)\<close>: the pairs are stored one after the other.\<close>

definition dict :: "('k \<times> 'v) list \<Rightarrow> ('k \<times> 'v) list" where
  "dict pairs = foldl (\<lambda>d (k, v). setitem d k v) [] pairs"

text \<open>\<^verbatim>\<open>d[k]\<close> raises \<^verbatim>\<open>KeyError\<close> on a missing key; \<^verbatim>\<open>d.get(k)\<close> gives \<^verbatim>\<open>None\<close>.\<close>

definition getitem :: "device \<Rightarrow> string \<Rightarrow> exc + val" where
  "getitem d k = (case map_of d (Some k) of None \<Rightarrow> Inl (KeyError k) | Some v \<Rightarrow> Inr v)"

definition get :: "device \<Rightarrow> string \<Rightarrow> val" where
  "get d k = (case map_of d (Some k) of None \<Rightarrow> NoneVal | Some v \<Rightarrow> v)"

definition is_dict :: "('k \<times> 'v) list \<Rightarrow> bool" where
  "is_dict d = distinct (map fst d)"

subsection \<open>csv.DictReader\<close>

text \<open>
  \<^verbatim>\<open>DictReader.__next__\<close> (csv.py of the standard library) on one row of the underlying
  reader:
  \<^verbatim>\<open>
    d = dict(zip(self.fieldnames, row))
    lf = len(self.fieldnames); lr = len(row)
    if lf < lr:   d[self.restkey] = row[lf:]
    elif lf > lr:
        for key in self.fieldnames[lr:]: d[key] = self.restval
  \<close>
  with restkey and restval both \<^verbatim>\<open>None\<close>.
\<close>

definition make_row :: "string list \<Rightarrow> string list \<Rightarrow> device" where
  "make_row fieldnames row =
     (let d = dict (zip (map Some fieldnames) (map Str row));
          lf = length fieldnames;
          lr = length row
      in if lf < lr then setitem d None (Strs (drop lf row))
         else if lf > lr then foldl (\<lambda>d k. setitem d (Some k) NoneVal) d (drop lr fieldnames)
         else d)"

text \<open>Rows equal to \<^verbatim>\<open>[]\<close> (blank lines) are skipped: \<^verbatim>\<open>while row == []: row = next(self.reader)\<close>.\<close>

fun dict_rows :: "string list \<Rightarrow> string list list \<Rightarrow> device list" where
  "dict_rows fieldnames [] = []"
| "dict_rows fieldnames (row # rows) =
     (if row = [] then dict_rows fieldnames rows
      else make_row fieldnames row # dict_rows fieldnames rows)"

text \<open>The first row of the reader is taken as the field names, whatever it is.\<close>

definition DictReader :: "string list list \<Rightarrow> device list" where
  "DictReader rows = (case rows of [] \<Rightarrow> [] | fieldnames # rest \<Rightarrow> dict_rows fieldnames rest)"

subsection \<open>Files\<close>

text \<open>
  A path names no file, a regular file with its text, or something \<^verbatim>\<open>open\<close> refuses
  with an exception (a directory, a file without permission). Writing can fail too:
  at \<^verbatim>\<open>open(path, 'w')\<close>, before the file is touched, or later, when the medium takes
  only the first \<open>n\<close> characters.
\<close>

datatype node = Absent | File string | Denied exc

datatype wfault = OpenFault exc | WriteFault nat exc

record fs =
  node_at :: "string \<Rightarrow> node"
  write_fault :: "string \<Rightarrow> wfault option"

definition open_read :: "fs \<Rightarrow> string \<Rightarrow> exc + string" where
  "open_read s path =
     (case node_at s path of
        Absent \<Rightarrow> Inl FileNotFoundError
      | Denied e \<Rightarrow> Inl e
      | File text \<Rightarrow> Inr text)"

definition put_file :: "fs \<Rightarrow> string \<Rightarrow> string \<Rightarrow> fs" where
  "put_file s path text = s\<lparr>node_at := (node_at s)(path := File text)\<rparr>"

text \<open>\<^verbatim>\<open>with open(path, 'w') as file: file.write(text)\<close>: the exception raised, if any, and the files after it.\<close>

definition write_text :: "fs \<Rightarrow> string \<Rightarrow> string \<Rightarrow> exc option \<times> fs" where
  "write_text s path text =
     (case write_fault s path of
        Some (OpenFault e) \<Rightarrow> (Some e, s)
      | Some (WriteFault n e) \<Rightarrow>
          (if length text \<le> n then (None, put_file s path text)
           else (Some e, put_file s path (take n text)))
      | None \<Rightarrow>
          (case node_at s path of
             Denied e \<Rightarrow> (Some e, s)
           | _ \<Rightarrow> (None, put_file s path text)))"

subsection \<open>Console output\<close>

text \<open>One constructor for each \<^verbatim>\<open>print\<close> call of the source, with the values it interpolates.\<close>

datatype message =
    InventoryNotFound string       \<comment> \<open>\<^verbatim>\<open>Error: Inventory file {filename} not found\<close>\<close>
  | ErrorReadingInventory exc      \<comment> \<open>\<^verbatim>\<open>Error reading inventory: {e}\<close>\<close>
  | DataWritten string             \<comment> \<open>\<^verbatim>\<open>Data written to {filename}\<close>\<close>
  | ErrorWritingJSON exc           \<comment> \<open>\<^verbatim>\<open>Error writing JSON: {e}\<close>\<close>
  | ErrorWritingYAML exc           \<comment> \<open>\<^verbatim>\<open>Error writing YAML: {e}\<close>\<close>
  | FoundDevices nat               \<comment> \<open>\<^verbatim>\<open>Found {len(devices)} devices:\<close>\<close>
  | DeviceLine val val val         \<comment> \<open>\<^verbatim>\<open>  {Name} ({Management IP}) - {Description}\<close>\<close>

subsection \<open>read_inventory\<close>

text \<open>
  \<^verbatim>\<open>csv.reader\<close>, the tokenizer of the standard library, is a parameter: it maps the text
  of the file to the rows it yields and to the exception that ends the iteration, if one
  does (a decoding error further down the file, \<^verbatim>\<open>csv.Error\<close>).
\<close>

type_synonym csv_reader = "string \<Rightarrow> string list list \<times> exc option"

text \<open>The two handlers of \<^verbatim>\<open>read_inventory\<close>.\<close>

definition read_handler :: "string \<Rightarrow> exc \<Rightarrow> message" where
  "read_handler filename e =
     (case e of FileNotFoundError \<Rightarrow> InventoryNotFound filename
              | _ \<Rightarrow> ErrorReadingInventory e)"

text \<open>
  The rows are appended to \<^verbatim>\<open>devices\<close> as they are read; an exception leaves the loop,
  is printed by its handler, and \<^verbatim>\<open>devices\<close> is returned as it stands.
\<close>

definition read_inventory :: "csv_reader \<Rightarrow> fs \<Rightarrow> string \<Rightarrow> device list \<times> message list" where
  "read_inventory reader s filename =
     (case open_read s filename of
        Inl e \<Rightarrow> ([], [read_handler filename e])
      | Inr text \<Rightarrow>
          (case reader text of
             (rows, None) \<Rightarrow> (DictReader rows, [])
           | (rows, Some e) \<Rightarrow> (DictReader rows, [read_handler filename e])))"

subsection \<open>get_device_data\<close>

fun get_device_data :: "device list \<Rightarrow> string \<Rightarrow> device option" where
  "get_device_data [] device_name = None"
| "get_device_data (device # inventory_data) device_name =
     (if get device ''Name'' = Str device_name then Some device
      else get_device_data inventory_data device_name)"

subsection \<open>json.dump(data, file, indent=2)\<close>

abbreviation quote :: char where "quote \<equiv> CHR 0x22"
abbreviation backslash :: char where "backslash \<equiv> CHR 0x5C"
abbreviation newline :: char where "newline \<equiv> CHR 0x0A"

text \<open>\<^verbatim>\<open>'\\u{0:04x}'.format(n)\<close>: four lower-case hexadecimal digits.\<close>

definition hexdigit :: "nat \<Rightarrow> char" where
  "hexdigit d = (if d < 10 then char_of (48 + d) else char_of (87 + d))"

definition hex4 :: "nat \<Rightarrow> string" where
  "hex4 n = [hexdigit (n div 4096 mod 16), hexdigit (n div 256 mod 16),
             hexdigit (n div 16 mod 16), hexdigit (n mod 16)]"

text \<open>
  \<^verbatim>\<open>py_encode_basestring_ascii\<close> (json/encoder.py; \<^verbatim>\<open>ensure_ascii\<close> is on by default):
  backslash, quote and every character outside \<^verbatim>\<open>' '..'~'\<close> are replaced, by the short
  escape of \<^verbatim>\<open>ESCAPE_DCT\<close> when there is one and by \<^verbatim>\<open>\uXXXX\<close> otherwise. The
  characters of \<^typ>\<open>string\<close> are the code points below 256, so the branch of the
  source for code points from 0x10000 on (a surrogate pair) is never taken here.
\<close>

definition escape :: "char \<Rightarrow> string" where
  "escape c =
     (if c = backslash then [backslash, backslash]
      else if c = quote then [backslash, quote]
      else if c = CHR 0x08 then [backslash, CHR ''b'']
      else if c = CHR 0x0C then [backslash, CHR ''f'']
      else if c = newline then [backslash, CHR ''n'']
      else if c = CHR 0x0D then [backslash, CHR ''r'']
      else if c = CHR 0x09 then [backslash, CHR ''t'']
      else if (0x20::nat) \<le> of_char c \<and> of_char c \<le> (0x7E::nat) then [c]
      else backslash # CHR ''u'' # hex4 (of_char c))"

definition encode_basestring_ascii :: "string \<Rightarrow> string" where
  "encode_basestring_ascii s = quote # concat (map escape s) @ [quote]"

text \<open>\<^verbatim>\<open>newline_indent = '\n' + _indent * _current_indent_level\<close>, with \<^verbatim>\<open>_indent = ' ' * 2\<close>.\<close>

definition newline_indent :: "nat \<Rightarrow> string" where
  "newline_indent level = newline # concat (replicate level ''  '')"

text \<open>The chunks of a loop: the separator comes before every item but the first.\<close>

fun join :: "string \<Rightarrow> string list \<Rightarrow> string" where
  "join sep [] = []"
| "join sep [x] = x"
| "join sep (x # y # ys) = x @ sep @ join sep (y # ys)"

text \<open>
  \<^verbatim>\<open>_iterencode_list\<close>, with the encoder of the items as an argument; the item separator is
  \<^verbatim>\<open>','\<close> when an indent is given.
\<close>

definition iterencode_list :: "('a \<Rightarrow> nat \<Rightarrow> string) \<Rightarrow> 'a list \<Rightarrow> nat \<Rightarrow> string" where
  "iterencode_list enc lst level =
     (if lst = [] then ''[]''
      else ''['' @ newline_indent (level + 1)
           @ join ('','' @ newline_indent (level + 1)) (map (\<lambda>v. enc v (level + 1)) lst)
           @ newline_indent level @ '']'')"

definition iterencode_val :: "val \<Rightarrow> nat \<Rightarrow> string" where
  "iterencode_val v level =
     (case v of
        Str s \<Rightarrow> encode_basestring_ascii s
      | NoneVal \<Rightarrow> ''null''
      | Strs lst \<Rightarrow> iterencode_list (\<lambda>s _. encode_basestring_ascii s) lst level)"

text \<open>A key that is \<^verbatim>\<open>None\<close> is written as the string \<^verbatim>\<open>null\<close>.\<close>

definition key_str :: "key \<Rightarrow> string" where
  "key_str k = (case k of Some s \<Rightarrow> s | None \<Rightarrow> ''null'')"

text \<open>The chunks of one item of a dictionary: the key, \<^verbatim>\<open>': '\<close> and the value.\<close>

definition iterencode_item :: "nat \<Rightarrow> key \<times> val \<Rightarrow> string" where
  "iterencode_item level item =
     encode_basestring_ascii (key_str (fst item)) @ '': '' @ iterencode_val (snd item) level"

text \<open>\<^verbatim>\<open>_iterencode_dict\<close>, with \<^verbatim>\<open>sort_keys\<close> off: the items in the order of the dictionary.\<close>

definition iterencode_dict :: "device \<Rightarrow> nat \<Rightarrow> string" where
  "iterencode_dict dct level =
     (if dct = [] then ''{}''
      else ''{'' @ newline_indent (level + 1)
           @ join ('','' @ newline_indent (level + 1)) (map (iterencode_item (level + 1)) dct)
           @ newline_indent level @ ''}'')"

definition json_dumps :: "device list \<Rightarrow> string" where
  "json_dumps data = iterencode_list iterencode_dict data 0"

subsection \<open>write_json and write_yaml\<close>

definition write_json :: "device list \<Rightarrow> string \<Rightarrow> fs \<Rightarrow> fs \<times> message list" where
  "write_json data filename s =
     (case write_text s filename (json_dumps data) of
        (None, s') \<Rightarrow> (s', [DataWritten filename])
      | (Some e, s') \<Rightarrow> (s', [ErrorWritingJSON e]))"

text \<open>
  \<^verbatim>\<open>yaml.dump(data, file, default_flow_style=False)\<close> belongs to PyYAML, which is not
  part of the repository: the text it produces is a parameter.
\<close>

type_synonym yaml_dumper = "device list \<Rightarrow> string"

definition write_yaml :: "yaml_dumper \<Rightarrow> device list \<Rightarrow> string \<Rightarrow> fs \<Rightarrow> fs \<times> message list" where
  "write_yaml yaml_dump data filename s =
     (case write_text s filename (yaml_dump data) of
        (None, s') \<Rightarrow> (s', [DataWritten filename])
      | (Some e, s') \<Rightarrow> (s', [ErrorWritingYAML e]))"

subsection \<open>main\<close>

text \<open>
  The namespace \<^verbatim>\<open>parser.parse_args()\<close> returns. An option that is not given is
  \<^verbatim>\<open>None\<close>, except \<^verbatim>\<open>--inventory\<close>, whose default is \<^verbatim>\<open>inventory.csv\<close>. No option is
  declared \<^verbatim>\<open>required\<close>; \<^verbatim>\<open>choices\<close> restricts the action and the format.
\<close>

record args =
  action :: string
  name :: "string option"
  ip :: "string option"
  user :: "string option"
  password :: "string option"
  desc :: "string option"
  format :: "string option"
  output_arg :: "string option"   \<comment> \<open>\<^verbatim>\<open>args.output\<close>\<close>
  inventory :: string

definition choices_ok :: "args \<Rightarrow> bool" where
  "choices_ok a =
     (action a \<in> {''list'', ''add'', ''export''}
      \<and> format a \<in> {None, Some ''json'', Some ''yaml''})"

text \<open>\<^verbatim>\<open>args.output or 'inventory.json'\<close>: \<^verbatim>\<open>None\<close> and the empty string are both false.\<close>

definition or_default :: "string option \<Rightarrow> string \<Rightarrow> string" where
  "or_default x dflt = (case x of None \<Rightarrow> dflt | Some p \<Rightarrow> if p = [] then dflt else p)"

text \<open>
  The loop of the \<^verbatim>\<open>list\<close> action. \<^verbatim>\<open>device['Name']\<close>, \<^verbatim>\<open>device['Management IP']\<close> and
  \<^verbatim>\<open>device['Description']\<close> are evaluated in this order, and the first missing key
  raises \<^verbatim>\<open>KeyError\<close>, which nothing catches.
\<close>

fun print_devices :: "device list \<Rightarrow> exc option \<times> message list" where
  "print_devices [] = (None, [])"
| "print_devices (device # devices) =
     (case getitem device ''Name'' of
        Inl e \<Rightarrow> (Some e, [])
      | Inr n \<Rightarrow>
          (case getitem device ''Management IP'' of
             Inl e \<Rightarrow> (Some e, [])
           | Inr i \<Rightarrow>
               (case getitem device ''Description'' of
                  Inl e \<Rightarrow> (Some e, [])
                | Inr d \<Rightarrow>
                    (case print_devices devices of
                       (r, out) \<Rightarrow> (r, DeviceLine n i d # out)))))"

text \<open>
  The result of \<open>main\<close>: the exception that ends the process, if there is one, the
  files and the console output.
\<close>

definition main :: "csv_reader \<Rightarrow> yaml_dumper \<Rightarrow> args \<Rightarrow> fs \<Rightarrow> exc option \<times> fs \<times> message list" where
  "main reader yaml_dump a s =
     (if action a = ''list'' then
        (case read_inventory reader s (inventory a) of
           (devices, out) \<Rightarrow>
             (case print_devices devices of
                (r, lines) \<Rightarrow> (r, s, out @ FoundDevices (length devices) # lines)))
      else if action a = ''export'' then
        (case read_inventory reader s (inventory a) of
           (devices, out) \<Rightarrow>
             if devices \<noteq> [] then
               if format a = Some ''json'' then
                 (case write_json devices (or_default (output_arg a) ''inventory.json'') s of
                    (s', out') \<Rightarrow> (None, s', out @ out'))
               else if format a = Some ''yaml'' then
                 (case write_yaml yaml_dump devices (or_default (output_arg a) ''inventory.yaml'') s of
                    (s', out') \<Rightarrow> (None, s', out @ out'))
               else (None, s, out)
             else (None, s, out))
      else (None, s, []))"

subsection \<open>Parsing JSON: json.loads\<close>

text \<open>
  The decoder of the standard library (json/decoder.py and json/scanner.py), on the rest
  of the text instead of an index into it. \<open>None\<close> is \<^verbatim>\<open>JSONDecodeError\<close>, or a text
  outside what is modelled: numbers, and \<^verbatim>\<open>\uXXXX\<close> escapes of code points from 256 on.
  The objects it returns:
\<close>

datatype json = JStr string | JNone | JTrue | JFalse | JList "json list" | JDict "(string \<times> json) list"

text \<open>\<^verbatim>\<open>WHITESPACE = re.compile(r'[ \t\n\r]*')\<close>\<close>

definition whitespace :: "char \<Rightarrow> bool" where
  "whitespace c = (c = CHR '' '' \<or> c = CHR 0x09 \<or> c = newline \<or> c = CHR 0x0D)"

definition skip_ws :: "string \<Rightarrow> string" where
  "skip_ws s = dropWhile whitespace s"

text \<open>\<^verbatim>\<open>BACKSLASH\<close>, the table of the one-letter escapes.\<close>

definition unescape :: "char \<Rightarrow> char option" where
  "unescape esc =
     (if esc = quote then Some quote
      else if esc = backslash then Some backslash
      else if esc = CHR ''/'' then Some (CHR ''/'')
      else if esc = CHR ''b'' then Some (CHR 0x08)
      else if esc = CHR ''f'' then Some (CHR 0x0C)
      else if esc = CHR ''n'' then Some newline
      else if esc = CHR ''r'' then Some (CHR 0x0D)
      else if esc = CHR ''t'' then Some (CHR 0x09)
      else None)"

definition hexval :: "char \<Rightarrow> nat option" where
  "hexval c =
     (let n = (of_char c :: nat)
      in if 48 \<le> n \<and> n \<le> 57 then Some (n - 48)
         else if 97 \<le> n \<and> n \<le> 102 then Some (n - 87)
         else if 65 \<le> n \<and> n \<le> 70 then Some (n - 55)
         else None)"

text \<open>\<^verbatim>\<open>_decode_uXXXX\<close>: the value of four hexadecimal digits.\<close>

definition decode_uXXXX :: "char \<Rightarrow> char \<Rightarrow> char \<Rightarrow> char \<Rightarrow> nat option" where
  "decode_uXXXX a b c d =
     (case (hexval a, hexval b, hexval c, hexval d) of
        (Some x, Some y, Some z, Some w) \<Rightarrow> Some (4096 * x + 256 * y + 16 * z + w)
      | _ \<Rightarrow> None)"

text \<open>
  \<^verbatim>\<open>py_scanstring\<close> with \<^verbatim>\<open>strict=True\<close>, from the character after the opening quote:
  the decoded string and the text after the closing quote. A literal control character
  is an error.
\<close>

fun scanstring :: "string \<Rightarrow> (string \<times> string) option" where
  "scanstring [] = None"
| "scanstring (c # s) =
     (if c = quote then Some ([], s)
      else if c = backslash then
        (case s of
           [] \<Rightarrow> None
         | esc # r \<Rightarrow>
             if esc = CHR ''u'' then
               (case r of
                  h1 # h2 # h3 # h4 # r' \<Rightarrow>
                    (case decode_uXXXX h1 h2 h3 h4 of
                       None \<Rightarrow> None
                     | Some uni \<Rightarrow>
                         if uni < 256 then
                           (case scanstring r' of
                              None \<Rightarrow> None
                            | Some (t, rest) \<Rightarrow> Some (char_of uni # t, rest))
                         else None)
                | _ \<Rightarrow> None)
             else
               (case unescape esc of
                  None \<Rightarrow> None
                | Some ch \<Rightarrow>
                    (case scanstring r of
                       None \<Rightarrow> None
                     | Some (t, rest) \<Rightarrow> Some (ch # t, rest))))
      else if (of_char c :: nat) < 0x20 then None
      else
        (case scanstring s of
           None \<Rightarrow> None
         | Some (t, rest) \<Rightarrow> Some (c # t, rest)))"

text \<open>
  \<^verbatim>\<open>scan_once\<close>, \<^verbatim>\<open>JSONArray\<close> and \<^verbatim>\<open>JSONObject\<close> call each other; the first argument
  bounds the number of nested calls, and the loops of the last two are functions of
  their own. \<open>array_loop\<close> starts at a value; \<open>object_loop\<close> starts after the opening
  quote of a property name.
\<close>

fun scan_once :: "nat \<Rightarrow> string \<Rightarrow> (json \<times> string) option"
  and JSONArray :: "nat \<Rightarrow> string \<Rightarrow> (json \<times> string) option"
  and array_loop :: "nat \<Rightarrow> string \<Rightarrow> (json list \<times> string) option"
  and JSONObject :: "nat \<Rightarrow> string \<Rightarrow> (json \<times> string) option"
  and object_loop :: "nat \<Rightarrow> string \<Rightarrow> ((string \<times> json) list \<times> string) option"
where
  "scan_once 0 s = None"
| "scan_once (Suc n) s =
     (case s of
        [] \<Rightarrow> None
      | nextchar # r \<Rightarrow>
          if nextchar = quote then
            (case scanstring r of
               None \<Rightarrow> None
             | Some (t, rest) \<Rightarrow> Some (JStr t, rest))
          else if nextchar = CHR ''{'' then JSONObject n r
          else if nextchar = CHR ''['' then JSONArray n r
          else if take 4 s = ''null'' then Some (JNone, drop 4 s)
          else if take 4 s = ''true'' then Some (JTrue, drop 4 s)
          else if take 5 s = ''false'' then Some (JFalse, drop 5 s)
          else None)"
| "JSONArray 0 s = None"
| "JSONArray (Suc n) s =
     (case skip_ws s of
        [] \<Rightarrow> None
      | nextchar # r \<Rightarrow>
          if nextchar = CHR '']'' then Some (JList [], r)
          else
            (case array_loop n (nextchar # r) of
               None \<Rightarrow> None
             | Some (values, rest) \<Rightarrow> Some (JList values, rest)))"
| "array_loop 0 s = None"
| "array_loop (Suc n) s =
     (case scan_once n s of
        None \<Rightarrow> None
      | Some (v, r) \<Rightarrow>
          (case skip_ws r of
             [] \<Rightarrow> None
           | nextchar # r' \<Rightarrow>
               if nextchar = CHR '']'' then Some ([v], r')
               else if nextchar = CHR '','' then
                 (case array_loop n (skip_ws r') of
                    None \<Rightarrow> None
                  | Some (values, rest) \<Rightarrow> Some (v # values, rest))
               else None))"
| "JSONObject 0 s = None"
| "JSONObject (Suc n) s =
     (case skip_ws s of
        [] \<Rightarrow> None
      | nextchar # r \<Rightarrow>
          if nextchar = CHR ''}'' then Some (JDict [], r)
          else if nextchar = quote then
            (case object_loop n r of
               None \<Rightarrow> None
             | Some (pairs, rest) \<Rightarrow> Some (JDict (dict pairs), rest))
          else None)"
| "object_loop 0 s = None"
| "object_loop (Suc n) s =
     (case scanstring s of
        None \<Rightarrow> None
      | Some (k, r) \<Rightarrow>
          (case skip_ws r of
             [] \<Rightarrow> None
           | colon # r1 \<Rightarrow>
               if colon = CHR '':'' then
                 (case scan_once n (skip_ws r1) of
                    None \<Rightarrow> None
                  | Some (v, r2) \<Rightarrow>
                      (case skip_ws r2 of
                         [] \<Rightarrow> None
                       | nextchar # r3 \<Rightarrow>
                           if nextchar = CHR ''}'' then Some ([(k, v)], r3)
                           else if nextchar = CHR '','' then
                             (case skip_ws r3 of
                                [] \<Rightarrow> None
                              | q # r4 \<Rightarrow>
                                  if q = quote then
                                    (case object_loop n r4 of
                                       None \<Rightarrow> None
                                     | Some (pairs, rest) \<Rightarrow> Some ((k, v) # pairs, rest))
                                  else None)
                           else None))
               else None))"








subsection \<open>Failures and columns\<close>

text \<open>The exception that ends the reading of the inventory, if there is one.\<close>

definition read_failure :: "csv_reader \<Rightarrow> fs \<Rightarrow> string \<Rightarrow> exc option" where
  "read_failure reader s filename =
     (case open_read s filename of Inl e \<Rightarrow> Some e | Inr text \<Rightarrow> snd (reader text))"

text \<open>A record has the three keys the \<^verbatim>\<open>list\<close> action prints.\<close>

definition has_columns :: "device \<Rightarrow> bool" where
  "has_columns d =
     (map_of d (Some ''Name'') \<noteq> None \<and> map_of d (Some ''Management IP'') \<noteq> None
      \<and> map_of d (Some ''Description'') \<noteq> None)"

subsection \<open>Telling the messages of an export apart\<close>

definition export_message :: "message \<Rightarrow> bool" where
  "export_message m =
     (case m of DataWritten _ \<Rightarrow> True | ErrorWritingJSON _ \<Rightarrow> True
              | ErrorWritingYAML _ \<Rightarrow> True | _ \<Rightarrow> False)"

subsection \<open>Example inputs\<close>

text \<open>
  The inventory of the scenario in the specification: a header and one device. Its
  reader is what \<^verbatim>\<open>csv.reader\<close> yields on that text.
\<close>

definition sw1 :: device where
  "sw1 = [(Some ''Name'', Str ''sw1''), (Some ''Management IP'', Str ''10.0.0.1''),
          (Some ''Description'', Str ''core switch'')]"

definition sw1_spare :: device where
  "sw1_spare = [(Some ''Name'', Str ''sw1''), (Some ''Management IP'', Str ''10.0.0.2''),
                (Some ''Description'', Str ''spare'')]"

definition inventory_text :: string where
  "inventory_text = ''Name,Management IP,Description'' @ [newline]
                    @ ''sw1,10.0.0.1,core switch'' @ [newline]"

definition inventory_reader :: csv_reader where
  "inventory_reader text =
     ([[''Name'', ''Management IP'', ''Description''],
       [''sw1'', ''10.0.0.1'', ''core switch'']], None)"

text \<open>A file system with one regular file, and one with none; writing never fails in them.\<close>

definition files :: "string \<Rightarrow> string \<Rightarrow> fs" where
  "files path text = \<lparr>node_at = (\<lambda>p. if p = path then File text else Absent),
                       write_fault = (\<lambda>p. None)\<rparr>"

definition no_files :: fs where
  "no_files = \<lparr>node_at = (\<lambda>p. Absent), write_fault = (\<lambda>p. None)\<rparr>"

text \<open>The same inventory where \<^verbatim>\<open>out.json\<close> cannot be opened for writing.\<close>

definition denied_fs :: fs where
  "denied_fs =
     \<lparr>node_at = (\<lambda>p. if p = ''inventory.csv'' then File inventory_text else Absent),
      write_fault = (\<lambda>p. if p = ''out.json''
                          then Some (OpenFault (OtherException ''Permission denied''))
                          else None)\<rparr>"

text \<open>A YAML dumper for the examples that never reach \<^verbatim>\<open>write_yaml\<close>.\<close>

definition no_yaml :: yaml_dumper where
  "no_yaml data = []"

text \<open>
  An inventory whose third line is one field of 131073 characters, one more than
  \<^verbatim>\<open>csv.field_size_limit()\<close> allows: \<^verbatim>\<open>csv.reader\<close> yields the header and the first
  device and then raises \<^verbatim>\<open>csv.Error\<close>.
\<close>

definition long_field_text :: string where
  "long_field_text = ''Name'' @ [newline] @ ''sw1'' @ [newline]
                     @ replicate 131073 (CHR ''x'') @ [newline]"

definition long_field_reader :: csv_reader where
  "long_field_reader text =
     ([[''Name''], [''sw1'']], Some (OtherException ''field larger than field limit (131072)''))"

text \<open>An inventory with the single column \<^verbatim>\<open>Name\<close>.\<close>

definition name_only_text :: string where
  "name_only_text = ''Name'' @ [newline] @ ''sw1'' @ [newline]"

definition name_only_reader :: csv_reader where
  "name_only_reader text = ([[''Name''], [''sw1'']], None)"


text \<open>Command lines: an action with \<^verbatim>\<open>--format\<close> and \<^verbatim>\<open>--output\<close>, and an \<^verbatim>\<open>add\<close> with all its fields.\<close>

definition cli :: "string \<Rightarrow> string option \<Rightarrow> string option \<Rightarrow> args" where
  "cli act fmt out = \<lparr>action = act, name = None, ip = None, user = None, password = None,
     desc = None, format = fmt, output_arg = out, inventory = ''inventory.csv''\<rparr>"

definition add_args :: args where
  "add_args = \<lparr>action = ''add'', name = Some ''sw2'', ip = Some ''10.0.0.2'',
     user = Some ''admin'', password = Some ''secret'', desc = Some ''access switch'',
     format = None, output_arg = None, inventory = ''inventory.csv''\<rparr>"

section \<open>Properties\<close>

subsection \<open>Dictionaries\<close>

lemma setitem_fresh: "k \<notin> fst ` set d \<Longrightarrow> setitem d k v = d @ [(k, v)]"
  by (induction d) auto





text \<open>Every record that \<open>read_inventory\<close> returns has pairwise different keys.\<close>

lemma setitem_known: "k \<in> fst ` set d \<Longrightarrow> map fst (setitem d k v) = map fst d"
  by (induction d) force+

lemma map_fst_setitem:
  "map fst (setitem d k v) = (if k \<in> fst ` set d then map fst d else map fst d @ [k])"
  by (simp add: setitem_known setitem_fresh)

lemma is_dict_setitem: "is_dict d \<Longrightarrow> is_dict (setitem d k v)"
  by (simp add: is_dict_def map_fst_setitem)

lemma is_dict_foldl:
  "is_dict d \<Longrightarrow> is_dict (foldl (\<lambda>d (k, v). setitem d k v) d ps)"
  by (induction ps arbitrary: d) (auto simp: is_dict_setitem)

lemma is_dict_dict: "is_dict (dict ps)"
  unfolding dict_def by (rule is_dict_foldl) (simp add: is_dict_def)

lemma is_dict_foldl_keys:
  "is_dict d \<Longrightarrow> is_dict (foldl (\<lambda>d k. setitem d (Some k) NoneVal) d ks)"
  by (induction ks arbitrary: d) (auto simp: is_dict_setitem)

lemma is_dict_make_row: "is_dict (make_row fieldnames row)"
  by (simp add: make_row_def Let_def is_dict_dict is_dict_setitem is_dict_foldl_keys)

lemma is_dict_dict_rows: "\<forall>d \<in> set (dict_rows fieldnames rows). is_dict d"
  by (induction rows) (auto simp: is_dict_make_row)

lemma is_dict_read_inventory:
  "\<forall>d \<in> set (fst (read_inventory reader s filename)). is_dict d"
  by (auto simp: read_inventory_def DictReader_def is_dict_dict_rows
      split: sum.splits prod.splits option.splits list.splits)

subsection \<open>Loading a well-formed inventory\<close>



subsection \<open>Looking a device up\<close>

lemma get_device_data_none:
  "(\<forall>d \<in> set inventory_data. get d ''Name'' \<noteq> Str q) \<Longrightarrow>
   get_device_data inventory_data q = None"
  by (induction inventory_data) auto

lemma get_device_data_at:
  "i < length inventory_data \<Longrightarrow> get (inventory_data ! i) ''Name'' = Str q \<Longrightarrow>
   (\<forall>j < i. get (inventory_data ! j) ''Name'' \<noteq> Str q) \<Longrightarrow>
   get_device_data inventory_data q = Some (inventory_data ! i)"
proof (induction inventory_data arbitrary: i)
  case Nil
  then show ?case by simp
next
  case (Cons d ds)
  show ?case
  proof (cases i)
    case 0
    with Cons.prems show ?thesis by simp
  next
    case (Suc k)
    with Cons.prems have "get d ''Name'' \<noteq> Str q" by auto
    moreover have "get_device_data ds q = Some (ds ! k)"
    proof (rule Cons.IH)
      show "k < length ds" using Cons.prems Suc by simp
      show "get (ds ! k) ''Name'' = Str q" using Cons.prems Suc by simp
      show "\<forall>j<k. get (ds ! j) ''Name'' \<noteq> Str q"
      proof (intro allI impI)
        fix j assume "j < k"
        then have "Suc j < i" using Suc by simp
        with Cons.prems(3) have "get ((d # ds) ! Suc j) ''Name'' \<noteq> Str q" by blast
        then show "get (ds ! j) ''Name'' \<noteq> Str q" by simp
      qed
    qed
    ultimately show ?thesis using Suc by simp
  qed
qed

text \<open>
  Claim C4. \<open>get_device_data\<close> returns \<open>None\<close> when no record has the queried name in its
  \<^verbatim>\<open>Name\<close> field, in particular on the empty inventory, and otherwise the record at the
  least position whose \<^verbatim>\<open>Name\<close> field is the query: with duplicate names, the first.
\<close>

theorem get_device_data_first_match:
  "((\<forall>d \<in> set inventory_data. get d ''Name'' \<noteq> Str q)
      \<longrightarrow> get_device_data inventory_data q = None)
   \<and> (\<forall>i < length inventory_data.
        get (inventory_data ! i) ''Name'' = Str q
        \<and> (\<forall>j < i. get (inventory_data ! j) ''Name'' \<noteq> Str q)
        \<longrightarrow> get_device_data inventory_data q = Some (inventory_data ! i))
   \<and> get_device_data [] q = None"
  using get_device_data_none get_device_data_at by auto

theorem get_device_data_first_match_witness:
  "get_device_data [sw1, sw1_spare] ''sw1'' = Some sw1
   \<and> get_device_data [sw1, sw1_spare] ''sw9'' = None"
proof -
  note t = get_device_data_first_match [of "[sw1, sw1_spare]"]
  have none: "\<forall>d \<in> set [sw1, sw1_spare]. get d ''Name'' \<noteq> Str ''sw9''"
    by (simp add: get_def sw1_def sw1_spare_def)
  have first: "(0::nat) < length [sw1, sw1_spare]
      \<and> get ([sw1, sw1_spare] ! 0) ''Name'' = Str ''sw1''
      \<and> (\<forall>j < (0::nat). get ([sw1, sw1_spare] ! j) ''Name'' \<noteq> Str ''sw1'')"
    by (simp add: get_def sw1_def)
  have "get_device_data [sw1, sw1_spare] ''sw1'' = Some ([sw1, sw1_spare] ! 0)"
    using t [of "''sw1''"] first by blast
  moreover have "get_device_data [sw1, sw1_spare] ''sw9'' = None"
    using t [of "''sw9''"] none by blast
  ultimately show ?thesis by simp
qed

subsection \<open>Loading fails softly\<close>

text \<open>
  Claim C5. When the path names no file, \<open>read_inventory\<close> prints the diagnostic
  \<^verbatim>\<open>Error: Inventory file ... not found\<close> and returns the empty list; the exception of
  \<^verbatim>\<open>open\<close> is caught, so the function returns.
\<close>

theorem read_inventory_missing_file:
  "node_at s filename = Absent \<Longrightarrow>
   read_inventory reader s filename = ([], [InventoryNotFound filename])"
  by (simp add: read_inventory_def open_read_def read_handler_def)

theorem read_inventory_missing_file_witness:
  "read_inventory inventory_reader no_files ''inventory.csv''
     = ([], [InventoryNotFound ''inventory.csv''])"
proof -
  have "node_at no_files ''inventory.csv'' = Absent" by (simp add: no_files_def)
  then show ?thesis by (rule read_inventory_missing_file)
qed

lemma DictReader_short: "length rows \<le> 1 \<Longrightarrow> DictReader rows = []"
  by (cases rows) (auto simp: DictReader_def)

text \<open>
  Claim C6, as stated, fails: a failure after some rows have been read leaves those rows
  in the result. Here the reader raises \<^verbatim>\<open>csv.Error\<close> on the third line, and the device
  of the second line is returned with the report.
\<close>

theorem read_inventory_partial_counterexample:
  "read_inventory long_field_reader (files ''inventory.csv'' long_field_text) ''inventory.csv''
     = ([[(Some ''Name'', Str ''sw1'')]],
        [ErrorReadingInventory (OtherException ''field larger than field limit (131072)'')])"
  by (simp add: read_inventory_def open_read_def files_def long_field_reader_def
      read_handler_def DictReader_def make_row_def dict_def)

text \<open>
  Claim C6, amended. A failure other than a missing file is caught and reported with
  \<^verbatim>\<open>Error reading inventory\<close>. When \<^verbatim>\<open>open\<close> fails the result is empty; when reading
  fails the result is the records of the rows read before the failure, which is empty
  when the failure comes before the first data row.
\<close>

theorem read_inventory_other_failure:
  assumes "e \<noteq> FileNotFoundError"
  shows "(node_at s filename = Denied e \<longrightarrow>
            read_inventory reader s filename = ([], [ErrorReadingInventory e]))
       \<and> (node_at s filename = File text \<and> reader text = (rows, Some e) \<longrightarrow>
            read_inventory reader s filename = (DictReader rows, [ErrorReadingInventory e])
            \<and> (length rows \<le> 1 \<longrightarrow> DictReader rows = []))"
  using assms
  by (cases e) (auto simp: read_inventory_def open_read_def read_handler_def DictReader_short)

theorem read_inventory_other_failure_witness:
  "read_inventory long_field_reader (files ''inventory.csv'' long_field_text) ''inventory.csv''
     = (DictReader [[''Name''], [''sw1'']],
        [ErrorReadingInventory (OtherException ''field larger than field limit (131072)'')])"
proof -
  let ?e = "OtherException ''field larger than field limit (131072)''"
  have a: "?e \<noteq> FileNotFoundError" by simp
  have b: "node_at (files ''inventory.csv'' long_field_text) ''inventory.csv'' = File long_field_text
      \<and> long_field_reader long_field_text = ([[''Name''], [''sw1'']], Some ?e)"
    by (simp add: files_def long_field_reader_def)
  from read_inventory_other_failure [OF a, of "files ''inventory.csv'' long_field_text"
      "''inventory.csv''" long_field_reader long_field_text "[[''Name''], [''sw1'']]"] b
  show ?thesis by blast
qed

subsection \<open>The add action\<close>

text \<open>
  Claim C9. With the action \<^verbatim>\<open>add\<close>, whatever the other arguments are, \<open>main\<close> reads
  nothing, prints nothing and leaves every file as it was: no record is appended and
  nothing is written back.
\<close>

theorem add_changes_nothing:
  "action a = ''add'' \<Longrightarrow> main reader yaml_dump a s = (None, s, [])"
  by (simp add: main_def)

theorem add_changes_nothing_witness:
  "main inventory_reader no_yaml add_args (files ''inventory.csv'' inventory_text)
     = (None, files ''inventory.csv'' inventory_text, [])"
proof -
  have "action add_args = ''add''" by (simp add: add_args_def)
  then show ?thesis by (rule add_changes_nothing)
qed

subsection \<open>Exporting an empty inventory\<close>

lemma read_inventory_messages:
  "\<not> list_ex export_message (snd (read_inventory reader s filename))"
  by (auto simp: read_inventory_def read_handler_def export_message_def
      split: sum.splits prod.splits option.splits exc.splits)

text \<open>
  Claim C10. When the action is \<^verbatim>\<open>export\<close> and loading the inventory gives the empty
  list, \<open>main\<close> leaves every file as it was and prints only what loading printed: none of
  the messages of \<open>write_json\<close> and \<open>write_yaml\<close> appears.
\<close>

theorem export_empty_inventory:
  assumes "action a = ''export''"
    and "fst (read_inventory reader s (inventory a)) = []"
  shows "main reader yaml_dump a s = (None, s, snd (read_inventory reader s (inventory a)))
       \<and> \<not> list_ex export_message (snd (snd (main reader yaml_dump a s)))"
proof -
  obtain devices out where r: "read_inventory reader s (inventory a) = (devices, out)"
    by (cases "read_inventory reader s (inventory a)")
  with assms(2) have "devices = []" by simp
  with assms(1) r
  have m: "main reader yaml_dump a s = (None, s, snd (read_inventory reader s (inventory a)))"
    by (simp add: main_def)
  show ?thesis using read_inventory_messages by (simp add: m)
qed

theorem export_empty_inventory_witness:
  "main inventory_reader no_yaml (cli ''export'' (Some ''json'') (Some ''out.json'')) no_files
     = (None, no_files, [InventoryNotFound ''inventory.csv''])"
proof -
  let ?a = "cli ''export'' (Some ''json'') (Some ''out.json'')"
  have a: "action ?a = ''export''" by (simp add: cli_def)
  have r: "read_inventory inventory_reader no_files (inventory ?a)
             = ([], [InventoryNotFound ''inventory.csv''])"
    by (simp add: read_inventory_def open_read_def no_files_def read_handler_def cli_def)
  have b: "fst (read_inventory inventory_reader no_files (inventory ?a)) = []"
    by (simp add: r)
  from export_empty_inventory [OF a b, of no_yaml] show ?thesis by (simp add: r)
qed

subsection \<open>Which failures are caught\<close>

lemma print_devices_ok:
  "list_all has_columns devices \<Longrightarrow> fst (print_devices devices) = None"
  by (induction devices) (auto simp: has_columns_def getitem_def split: prod.splits)

lemma main_not_list: "action a \<noteq> ''list'' \<Longrightarrow> fst (main reader yaml_dump a s) = None"
  by (auto simp: main_def split: prod.splits)

lemma main_list_ok:
  assumes "action a = ''list''"
    and "list_all has_columns (fst (read_inventory reader s (inventory a)))"
  shows "fst (main reader yaml_dump a s) = None"
proof -
  obtain devices out where r: "read_inventory reader s (inventory a) = (devices, out)"
    by (cases "read_inventory reader s (inventory a)")
  obtain res lines where p: "print_devices devices = (res, lines)"
    by (cases "print_devices devices")
  from assms(2) r have "fst (print_devices devices) = None" by (simp add: print_devices_ok)
  with p have "res = None" by simp
  with assms(1) r p show ?thesis by (simp add: main_def)
qed

lemma read_inventory_reports:
  "read_failure reader s filename = Some e \<Longrightarrow>
   snd (read_inventory reader s filename) = [read_handler filename e]"
  by (auto simp: read_failure_def read_inventory_def split: sum.splits prod.splits option.splits)

lemma main_reports_read:
  assumes "action a = ''list'' \<or> action a = ''export''"
    and "read_failure reader s (inventory a) = Some e"
  shows "read_handler (inventory a) e \<in> set (snd (snd (main reader yaml_dump a s)))"
proof -
  obtain devices out where r: "read_inventory reader s (inventory a) = (devices, out)"
    by (cases "read_inventory reader s (inventory a)")
  with read_inventory_reports [OF assms(2)] have "out = [read_handler (inventory a) e]" by simp
  with assms(1) r show ?thesis by (auto simp: main_def split: prod.splits)
qed

lemma write_json_reports:
  "fst (write_text s path (json_dumps data)) = Some e \<Longrightarrow>
   snd (write_json data path s) = [ErrorWritingJSON e]"
  by (auto simp: write_json_def split: prod.splits option.splits)

lemma write_yaml_reports:
  "fst (write_text s path (yaml_dump data)) = Some e \<Longrightarrow>
   snd (write_yaml yaml_dump data path s) = [ErrorWritingYAML e]"
  by (auto simp: write_yaml_def split: prod.splits option.splits)

lemma main_reports_json:
  assumes "action a = ''export''" and "format a = Some ''json''"
    and "fst (read_inventory reader s (inventory a)) \<noteq> []"
    and "fst (write_text s (or_default (output_arg a) ''inventory.json'')
               (json_dumps (fst (read_inventory reader s (inventory a))))) = Some e"
  shows "ErrorWritingJSON e \<in> set (snd (snd (main reader yaml_dump a s)))"
proof -
  obtain devices out where r: "read_inventory reader s (inventory a) = (devices, out)"
    by (cases "read_inventory reader s (inventory a)")
  with assms(4) have "snd (write_json devices (or_default (output_arg a) ''inventory.json'') s)
      = [ErrorWritingJSON e]" by (simp add: write_json_reports)
  with assms(1,2,3) r show ?thesis by (auto simp: main_def split: prod.splits)
qed

lemma main_reports_yaml:
  assumes "action a = ''export''" and "format a = Some ''yaml''"
    and "fst (read_inventory reader s (inventory a)) \<noteq> []"
    and "fst (write_text s (or_default (output_arg a) ''inventory.yaml'')
               (yaml_dump (fst (read_inventory reader s (inventory a))))) = Some e"
  shows "ErrorWritingYAML e \<in> set (snd (snd (main reader yaml_dump a s)))"
proof -
  obtain devices out where r: "read_inventory reader s (inventory a) = (devices, out)"
    by (cases "read_inventory reader s (inventory a)")
  with assms(4) have "snd (write_yaml yaml_dump devices (or_default (output_arg a) ''inventory.yaml'') s)
      = [ErrorWritingYAML e]" by (simp add: write_yaml_reports)
  with assms(1,2,3) r show ?thesis by (auto simp: main_def split: prod.splits)
qed

text \<open>
  Claim C7, as stated, fails: the \<^verbatim>\<open>list\<close> action on an inventory without the column
  \<^verbatim>\<open>Management IP\<close> ends with a \<^verbatim>\<open>KeyError\<close> that nothing catches, after the line
  \<^verbatim>\<open>Found 1 devices:\<close>.
\<close>

theorem main_list_missing_column_counterexample:
  "main name_only_reader no_yaml (cli ''list'' None None) (files ''inventory.csv'' name_only_text)
     = (Some (KeyError ''Management IP''), files ''inventory.csv'' name_only_text, [FoundDevices 1])"
  by (simp add: main_def cli_def read_inventory_def open_read_def files_def name_only_reader_def
      DictReader_def make_row_def dict_def getitem_def)

text \<open>
  Claim C7, amended. The \<^verbatim>\<open>add\<close> and \<^verbatim>\<open>export\<close> actions never end with an exception,
  and the \<^verbatim>\<open>list\<close> action does not when every loaded record has the keys \<^verbatim>\<open>Name\<close>,
  \<^verbatim>\<open>Management IP\<close> and \<^verbatim>\<open>Description\<close>. Every failure to open or read the inventory
  is reported by the handler of \<open>read_inventory\<close>, and every failure to write the export
  is reported by \<open>write_json\<close> or \<open>write_yaml\<close>.
\<close>

theorem main_failures_caught:
  "(action a \<noteq> ''list'' \<longrightarrow> fst (main reader yaml_dump a s) = None)
   \<and> (action a = ''list'' \<and> list_all has_columns (fst (read_inventory reader s (inventory a)))
        \<longrightarrow> fst (main reader yaml_dump a s) = None)
   \<and> ((action a = ''list'' \<or> action a = ''export'')
        \<and> read_failure reader s (inventory a) = Some e
        \<longrightarrow> read_handler (inventory a) e \<in> set (snd (snd (main reader yaml_dump a s))))
   \<and> (action a = ''export'' \<and> format a = Some ''json''
        \<and> fst (read_inventory reader s (inventory a)) \<noteq> []
        \<and> fst (write_text s (or_default (output_arg a) ''inventory.json'')
                 (json_dumps (fst (read_inventory reader s (inventory a))))) = Some e'
        \<longrightarrow> ErrorWritingJSON e' \<in> set (snd (snd (main reader yaml_dump a s))))
   \<and> (action a = ''export'' \<and> format a = Some ''yaml''
        \<and> fst (read_inventory reader s (inventory a)) \<noteq> []
        \<and> fst (write_text s (or_default (output_arg a) ''inventory.yaml'')
                 (yaml_dump (fst (read_inventory reader s (inventory a))))) = Some e'
        \<longrightarrow> ErrorWritingYAML e' \<in> set (snd (snd (main reader yaml_dump a s))))"
proof (intro conjI impI)
  assume "action a \<noteq> ''list''"
  then show "fst (main reader yaml_dump a s) = None" by (rule main_not_list)
next
  assume "action a = ''list'' \<and> list_all has_columns (fst (read_inventory reader s (inventory a)))"
  then show "fst (main reader yaml_dump a s) = None" by (simp add: main_list_ok)
next
  assume "(action a = ''list'' \<or> action a = ''export'')
      \<and> read_failure reader s (inventory a) = Some e"
  then show "read_handler (inventory a) e \<in> set (snd (snd (main reader yaml_dump a s)))"
    by (simp add: main_reports_read)
next
  assume "action a = ''export'' \<and> format a = Some ''json''
        \<and> fst (read_inventory reader s (inventory a)) \<noteq> []
        \<and> fst (write_text s (or_default (output_arg a) ''inventory.json'')
                 (json_dumps (fst (read_inventory reader s (inventory a))))) = Some e'"
  then show "ErrorWritingJSON e' \<in> set (snd (snd (main reader yaml_dump a s)))"
    by (simp add: main_reports_json)
next
  assume "action a = ''export'' \<and> format a = Some ''yaml''
        \<and> fst (read_inventory reader s (inventory a)) \<noteq> []
        \<and> fst (write_text s (or_default (output_arg a) ''inventory.yaml'')
                 (yaml_dump (fst (read_inventory reader s (inventory a))))) = Some e'"
  then show "ErrorWritingYAML e' \<in> set (snd (snd (main reader yaml_dump a s)))"
    by (simp add: main_reports_yaml)
qed

theorem main_failures_caught_witness:
  "fst (main inventory_reader no_yaml (cli ''list'' None None) (files ''inventory.csv'' inventory_text)) = None
   \<and> ErrorWritingJSON (OtherException ''Permission denied'')
        \<in> set (snd (snd (main inventory_reader no_yaml (cli ''export'' (Some ''json'') (Some ''out.json'')) denied_fs)))"
proof -
  let ?a = "cli ''list'' None None"
  let ?s = "files ''inventory.csv'' inventory_text"
  have r: "read_inventory inventory_reader ?s (inventory ?a) = ([sw1], [])"
    by (simp add: read_inventory_def open_read_def files_def cli_def inventory_reader_def
        DictReader_def make_row_def dict_def sw1_def)
  have h: "action ?a = ''list'' \<and> list_all has_columns (fst (read_inventory inventory_reader ?s (inventory ?a)))"
    by (simp add: r) (simp add: cli_def has_columns_def sw1_def)
  have one: "fst (main inventory_reader no_yaml ?a ?s) = None"
    using main_failures_caught [of ?a inventory_reader no_yaml ?s] h by blast
  let ?b = "cli ''export'' (Some ''json'') (Some ''out.json'')"
  let ?e = "OtherException ''Permission denied''"
  have r': "read_inventory inventory_reader denied_fs (inventory ?b) = ([sw1], [])"
    by (simp add: read_inventory_def open_read_def denied_fs_def cli_def inventory_reader_def
        DictReader_def make_row_def dict_def sw1_def)
  have h': "action ?b = ''export'' \<and> format ?b = Some ''json''
        \<and> fst (read_inventory inventory_reader denied_fs (inventory ?b)) \<noteq> []
        \<and> fst (write_text denied_fs (or_default (output_arg ?b) ''inventory.json'')
                 (json_dumps (fst (read_inventory inventory_reader denied_fs (inventory ?b))))) = Some ?e"
    by (simp add: r') (simp add: cli_def or_default_def write_text_def denied_fs_def)
  have two: "ErrorWritingJSON ?e \<in> set (snd (snd (main inventory_reader no_yaml ?b denied_fs)))"
    using main_failures_caught [of ?b inventory_reader no_yaml denied_fs _ ?e] h' by blast
  from one two show ?thesis by (rule conjI)
qed



subsection \<open>The export action\<close>

lemma write_json_ok:
  "fst (write_text s path (json_dumps data)) = None \<Longrightarrow>
   write_json data path s = (put_file s path (json_dumps data), [DataWritten path])"
  by (auto simp: write_json_def write_text_def split: option.splits wfault.splits node.splits if_splits)

lemma write_yaml_ok:
  "fst (write_text s path (yaml_dump data)) = None \<Longrightarrow>
   write_yaml yaml_dump data path s = (put_file s path (yaml_dump data), [DataWritten path])"
  by (auto simp: write_yaml_def write_text_def split: option.splits wfault.splits node.splits if_splits)

text \<open>
  Claim C8, as stated, fails: an \<^verbatim>\<open>export\<close> without \<^verbatim>\<open>--format\<close> passes the choices of
  the parser, and \<open>main\<close> then returns without a message and without writing, although
  the inventory has a device and \<^verbatim>\<open>--output\<close> is given.
\<close>

theorem export_without_format_counterexample:
  "choices_ok (cli ''export'' None (Some ''out.json''))
   \<and> main inventory_reader no_yaml (cli ''export'' None (Some ''out.json''))
        (files ''inventory.csv'' inventory_text)
      = (None, files ''inventory.csv'' inventory_text, [])"
  by (simp add: choices_ok_def main_def cli_def read_inventory_def open_read_def files_def
      inventory_reader_def DictReader_def make_row_def dict_def)

text \<open>
  Claim C8, amended. \<^verbatim>\<open>--format\<close> is optional: without it an \<^verbatim>\<open>export\<close> of a non-empty
  inventory does nothing. With the format \<^verbatim>\<open>json\<close> or \<^verbatim>\<open>yaml\<close>, a non-empty inventory
  and a write that does not fail, the dump becomes the content of the target file and
  \<^verbatim>\<open>Data written to\<close> is printed; the target is the \<^verbatim>\<open>--output\<close> path when that is given
  and not empty, and \<^verbatim>\<open>inventory.json\<close> or \<^verbatim>\<open>inventory.yaml\<close> otherwise.
\<close>

theorem export_format_and_target:
  assumes "action a = ''export''"
    and "read_inventory reader s (inventory a) = (devices, out)"
    and "devices \<noteq> []"
  shows "(format a = None \<longrightarrow> main reader yaml_dump a s = (None, s, out))
    \<and> (format a = Some ''json''
         \<and> fst (write_text s (or_default (output_arg a) ''inventory.json'') (json_dumps devices)) = None
        \<longrightarrow> main reader yaml_dump a s
              = (None, put_file s (or_default (output_arg a) ''inventory.json'') (json_dumps devices),
                 out @ [DataWritten (or_default (output_arg a) ''inventory.json'')]))
    \<and> (format a = Some ''yaml''
         \<and> fst (write_text s (or_default (output_arg a) ''inventory.yaml'') (yaml_dump devices)) = None
        \<longrightarrow> main reader yaml_dump a s
              = (None, put_file s (or_default (output_arg a) ''inventory.yaml'') (yaml_dump devices),
                 out @ [DataWritten (or_default (output_arg a) ''inventory.yaml'')]))
    \<and> (\<forall>p. output_arg a = Some p \<and> p \<noteq> [] \<longrightarrow> or_default (output_arg a) dflt = p)
    \<and> (output_arg a = None \<or> output_arg a = Some [] \<longrightarrow> or_default (output_arg a) dflt = dflt)"
proof (intro conjI impI allI)
  assume "format a = None"
  with assms show "main reader yaml_dump a s = (None, s, out)" by (simp add: main_def)
next
  let ?p = "or_default (output_arg a) ''inventory.json''"
  assume "format a = Some ''json'' \<and> fst (write_text s ?p (json_dumps devices)) = None"
  with assms show "main reader yaml_dump a s
      = (None, put_file s ?p (json_dumps devices), out @ [DataWritten ?p])"
    by (simp add: main_def write_json_ok)
next
  let ?p = "or_default (output_arg a) ''inventory.yaml''"
  assume "format a = Some ''yaml'' \<and> fst (write_text s ?p (yaml_dump devices)) = None"
  with assms show "main reader yaml_dump a s
      = (None, put_file s ?p (yaml_dump devices), out @ [DataWritten ?p])"
    by (simp add: main_def write_yaml_ok)
next
  fix p assume "output_arg a = Some p \<and> p \<noteq> []"
  then show "or_default (output_arg a) dflt = p" by (simp add: or_default_def)
next
  assume "output_arg a = None \<or> output_arg a = Some []"
  then show "or_default (output_arg a) dflt = dflt" by (auto simp: or_default_def)
qed

theorem export_format_and_target_witness:
  "main inventory_reader no_yaml (cli ''export'' (Some ''json'') (Some ''out.json''))
        (files ''inventory.csv'' inventory_text)
     = (None, put_file (files ''inventory.csv'' inventory_text) ''out.json'' (json_dumps [sw1]),
        [DataWritten ''out.json''])"
proof -
  let ?a = "cli ''export'' (Some ''json'') (Some ''out.json'')"
  let ?s = "files ''inventory.csv'' inventory_text"
  have a: "action ?a = ''export''" by (simp add: cli_def)
  have r: "read_inventory inventory_reader ?s (inventory ?a) = ([sw1], [])"
    by (simp add: read_inventory_def open_read_def files_def cli_def inventory_reader_def
        DictReader_def make_row_def dict_def sw1_def)
  have n: "[sw1] \<noteq> []" by simp
  note t = export_format_and_target [OF a r n, of no_yaml "''inventory.json''"]
  have p: "or_default (output_arg ?a) ''inventory.json'' = ''out.json''"
  proof -
    have "output_arg ?a = Some ''out.json'' \<and> ''out.json'' \<noteq> []" by (simp add: cli_def)
    with t show ?thesis by blast
  qed
  have "format ?a = Some ''json''
      \<and> fst (write_text ?s (or_default (output_arg ?a) ''inventory.json'') (json_dumps [sw1])) = None"
    by (simp add: p) (simp add: cli_def write_text_def files_def)
  with t have "main inventory_reader no_yaml ?a ?s
      = (None, put_file ?s (or_default (output_arg ?a) ''inventory.json'') (json_dumps [sw1]),
         [] @ [DataWritten (or_default (output_arg ?a) ''inventory.json'')])" by blast
  then show ?thesis by (simp add: p)
qed


subsection \<open>Reading back a JSON export\<close>

text \<open>The encoder on a small input, character by character.\<close>

lemma json_dumps_example:
  "json_dumps [[(Some ''Name'', Str ''sw1'')]]
     = ''['' @ [newline] @ ''  {'' @ [newline]
       @ ''    '' @ [quote] @ ''Name'' @ [quote] @ '': '' @ [quote] @ ''sw1'' @ [quote] @ [newline]
       @ ''  }'' @ [newline] @ '']''"
  by (simp add: json_dumps_def iterencode_list_def iterencode_dict_def iterencode_item_def
      iterencode_val_def key_str_def encode_basestring_ascii_def escape_def newline_indent_def)







lemma scanstring_short:
  "unescape esc = Some c \<Longrightarrow> esc \<noteq> CHR ''u'' \<Longrightarrow>
   scanstring (backslash # esc # rest) =
     (case scanstring rest of None \<Rightarrow> None | Some (t, r) \<Rightarrow> Some (c # t, r))"
  by (simp split: option.splits)
































end
